theory Spec2Isabelle
  imports Main "HOL-Library.Sublist" "HOL-Library.Char_ord" "HOL-Library.List_Lexorder"
begin

section \<open>The host: everything the plugin asks of its environment\<close>

text \<open>
  The plugin is Python. It reads the file system through \<^verbatim>\<open>pathlib\<close>, looks commands up
  with \<^verbatim>\<open>shutil.which\<close>, parses XML with \<^verbatim>\<open>xml.etree.ElementTree\<close> and matches with the
  launcher's \<^verbatim>\<open>Matcher\<close>. None of these is code of the repository, so each is a field of
  the record \<open>host\<close>: one value of the record is one state of the machine the plugin runs on.
  Strings are byte strings.
\<close>

datatype py_error =
  ParseError | FileNotFoundError | PermissionError | IsADirectoryError
  | TypeError | ValueError | KeyError | AttributeError

text \<open>An element of a parsed document: tag, attributes, children in document order.\<close>

datatype element =
  Element (tag: string) (attrib: "(string \<times> string) list") (children: "element list")

record host =
  platform :: string
    \<comment> \<open>\<^verbatim>\<open>sys.platform\<close>\<close>
  home :: string
    \<comment> \<open>\<^verbatim>\<open>str(Path.home())\<close>\<close>
  which :: "string \<Rightarrow> string option"
    \<comment> \<open>\<^verbatim>\<open>shutil.which(cmd)\<close>: the path of the command, or \<^verbatim>\<open>None\<close>\<close>
  glob :: "string \<Rightarrow> string \<Rightarrow> string list"
    \<comment> \<open>\<^verbatim>\<open>list(Path(dir).glob(pattern))\<close>: the paths matched, in the order the scan gives them\<close>
  parse :: "string \<Rightarrow> py_error + element"
    \<comment> \<open>\<^verbatim>\<open>ElementTree.parse(file).getroot()\<close>, or the exception it raises\<close>
  path_exists :: "string \<Rightarrow> bool"
    \<comment> \<open>\<^verbatim>\<open>Path(p).exists()\<close>\<close>
  matcher_match :: "string \<Rightarrow> bool \<Rightarrow> string list \<Rightarrow> bool"
    \<comment> \<open>\<^verbatim>\<open>bool(Matcher(query, MatchConfig(fuzzy=f)).match(*strings))\<close>\<close>

section \<open>The IDE registry\<close>

text \<open>
  \<^verbatim>\<open>class JetBrainsIde\<close> and its subclass \<^verbatim>\<open>Rider\<close>. The field \<open>cls\<close> records the class of
  the object, which decides the method \<^verbatim>\<open>_get_recent_projects_entries\<close> that runs on it.
\<close>

datatype ide_class = JetBrainsIde | Rider

record jetbrains_ide =
  cls :: ide_class
  name :: string
  icon :: string
  config_dir_prefixes :: "string list"
  binary :: "string option"

text \<open>One constructor call of the list in \<^verbatim>\<open>get_editors\<close>: the class and the four arguments.\<close>

record ide_entry =
  entry_cls :: ide_class
  entry_name :: string
  entry_icon :: string
  entry_config_dir_prefixes :: "string list"
  binaries :: "string list"

text \<open>\<^verbatim>\<open>if which(binary)\<close>: \<^verbatim>\<open>None\<close> and the empty string are false.\<close>

definition found :: "host \<Rightarrow> string \<Rightarrow> bool" where
  "found h b = (case which h b of None \<Rightarrow> False | Some p \<Rightarrow> p \<noteq> [])"

text \<open>\<^verbatim>\<open>_find_binary\<close>: the first candidate that \<^verbatim>\<open>which\<close> finds.\<close>

fun find_binary :: "host \<Rightarrow> string list \<Rightarrow> string option" where
  "find_binary h [] = None"
| "find_binary h (b # bs) = (if found h b then Some b else find_binary h bs)"

text \<open>\<^verbatim>\<open>__init__\<close>: the fields are the arguments, but for \<open>binary\<close>, which is looked up.\<close>

definition new_ide :: "host \<Rightarrow> ide_entry \<Rightarrow> jetbrains_ide" where
  "new_ide h v =
     \<lparr>cls = entry_cls v, name = entry_name v, icon = entry_icon v,
      config_dir_prefixes = entry_config_dir_prefixes v,
      binary = find_binary h (binaries v)\<rparr>"

text \<open>\<^verbatim>\<open>icons_dir / file\<close>\<close>

definition icon_path :: "string \<Rightarrow> string \<Rightarrow> string" where
  "icon_path icons_dir file = icons_dir @ ''/'' @ file"

definition table_entry :: "ide_class \<Rightarrow> string \<Rightarrow> string \<Rightarrow> string list \<Rightarrow> string list \<Rightarrow> ide_entry" where
  "table_entry c n i ps bs =
     \<lparr>entry_cls = c, entry_name = n, entry_icon = i, entry_config_dir_prefixes = ps, binaries = bs\<rparr>"

text \<open>The table of \<^verbatim>\<open>get_editors\<close>, in the order of the source.\<close>

definition ide_table :: "string \<Rightarrow> ide_entry list" where
  "ide_table icons_dir =
    [table_entry JetBrainsIde ''Android Studio'' (icon_path icons_dir ''androidstudio.svg'')
       [''Google/AndroidStudio'']
       [''studio'', ''androidstudio'', ''android-studio'', ''android-studio-canary'',
        ''jdk-android-studio'', ''android-studio-system-jdk''],
     table_entry JetBrainsIde ''Aqua'' (icon_path icons_dir ''aqua.svg'')
       [''JetBrains/Aqua''] [''aqua'', ''aqua-eap''],
     table_entry JetBrainsIde ''CLion'' (icon_path icons_dir ''clion.svg'')
       [''JetBrains/CLion''] [''clion'', ''clion-eap''],
     table_entry JetBrainsIde ''DataGrip'' (icon_path icons_dir ''datagrip.svg'')
       [''JetBrains/DataGrip''] [''datagrip'', ''datagrip-eap''],
     table_entry JetBrainsIde ''DataSpell'' (icon_path icons_dir ''dataspell.svg'')
       [''JetBrains/DataSpell''] [''dataspell'', ''dataspell-eap''],
     table_entry JetBrainsIde ''GoLand'' (icon_path icons_dir ''goland.svg'')
       [''JetBrains/GoLand''] [''goland'', ''goland-eap''],
     table_entry JetBrainsIde ''IntelliJ IDEA'' (icon_path icons_dir ''idea.svg'')
       [''JetBrains/IntelliJIdea'', ''JetBrains/Idea'']
       [''idea'', ''idea.sh'', ''idea-ultimate'', ''idea-ce-eap'', ''idea-ue-eap'',
        ''intellij-idea-ce'', ''intellij-idea-ce-eap'', ''intellij-idea-ue-bundled-jre'',
        ''intellij-idea-ultimate-edition'', ''intellij-idea-community-edition-jre'',
        ''intellij-idea-community-edition-no-jre''],
     table_entry JetBrainsIde ''PhpStorm'' (icon_path icons_dir ''phpstorm.svg'')
       [''JetBrains/PhpStorm''] [''phpstorm'', ''phpstorm-eap''],
     table_entry JetBrainsIde ''PyCharm'' (icon_path icons_dir ''pycharm.svg'')
       [''JetBrains/PyCharm''] [''charm'', ''pycharm'', ''pycharm-eap'', ''pycharm-professional''],
     table_entry Rider ''Rider'' (icon_path icons_dir ''rider.svg'')
       [''JetBrains/Rider''] [''rider'', ''rider-eap''],
     table_entry JetBrainsIde ''RubyMine'' (icon_path icons_dir ''rubymine.svg'')
       [''JetBrains/RubyMine'']
       [''rubymine'', ''rubymine-eap'', ''jetbrains-rubymine'', ''jetbrains-rubymine-eap''],
     table_entry JetBrainsIde ''RustRover'' (icon_path icons_dir ''rustrover.svg'')
       [''JetBrains/RustRover''] [''rustrover'', ''rustrover-eap''],
     table_entry JetBrainsIde ''WebStorm'' (icon_path icons_dir ''webstorm.svg'')
       [''JetBrains/WebStorm''] [''webstorm'', ''webstorm-eap''],
     table_entry JetBrainsIde ''Writerside'' (icon_path icons_dir ''writerside.svg'')
       [''JetBrains/Writerside''] [''writerside'', ''writerside-eap'']]"

text \<open>\<^verbatim>\<open>get_editors\<close>: every object is built, then those with no binary are left out.\<close>

definition get_editors :: "host \<Rightarrow> string \<Rightarrow> jetbrains_ide list" where
  "get_editors h icons_dir =
     filter (\<lambda>e. binary e \<noteq> None) (map (new_ide h) (ide_table icons_dir))"

section \<open>Strings, paths and integers as Python reads them\<close>

text \<open>
  \<^verbatim>\<open>s.replace(old, new)\<close>, written \<open>str_replace old new s\<close>: every occurrence of \<open>old\<close>,
  found from the left and not overlapping, becomes \<open>new\<close>.
\<close>

fun str_replace :: "string \<Rightarrow> string \<Rightarrow> string \<Rightarrow> string" where
  "str_replace old new [] = (if old = [] then new else [])"
| "str_replace old new (c # cs) =
     (if old = [] then new @ c # str_replace old new cs
      else if prefix old (c # cs) then new @ str_replace old new (drop (length old - 1) cs)
      else c # str_replace old new cs)"

text \<open>\<^verbatim>\<open>s.split('/')\<close>\<close>

fun split_sep :: "string \<Rightarrow> string list" where
  "split_sep [] = [[]]"
| "split_sep (c # cs) =
     (if c = CHR ''/'' then [] # split_sep cs
      else (case split_sep cs of [] \<Rightarrow> [[c]] | w # ws \<Rightarrow> (c # w) # ws))"

text \<open>
  A POSIX \<^verbatim>\<open>Path\<close>: the root (\<^verbatim>\<open>/\<close>, or \<^verbatim>\<open>//\<close> for exactly two leading slashes) and the
  components, where empty components and \<^verbatim>\<open>.\<close> are dropped. \<open>path_name\<close> is \<^verbatim>\<open>Path(p).name\<close>,
  \<open>path_str\<close> is \<^verbatim>\<open>str(Path(p))\<close>.
\<close>

definition path_root :: "string \<Rightarrow> string" where
  "path_root p =
     (if prefix ''//'' p \<and> \<not> prefix ''///'' p then ''//''
      else if prefix ''/'' p then ''/'' else [])"

definition path_tail :: "string \<Rightarrow> string list" where
  "path_tail p = filter (\<lambda>c. c \<noteq> [] \<and> c \<noteq> ''.'') (split_sep p)"

definition path_name :: "string \<Rightarrow> string" where
  "path_name p = (if path_tail p = [] then [] else last (path_tail p))"

fun join_sep :: "string list \<Rightarrow> string" where
  "join_sep [] = []"
| "join_sep [c] = c"
| "join_sep (c # cs) = c @ ''/'' @ join_sep cs"

definition path_str :: "string \<Rightarrow> string" where
  "path_str p =
     (if path_root p = [] \<and> path_tail p = [] then ''.'' else path_root p @ join_sep (path_tail p))"

text \<open>
  The key \<^verbatim>\<open>sorted\<close> compares two paths by: the normalised string split at the separator,
  compared as lists of strings.
\<close>

definition path_parts :: "string \<Rightarrow> string list" where
  "path_parts p = split_sep (path_str p)"

text \<open>\<^verbatim>\<open>a / b\<close> for a relative \<open>b\<close>, as a string.\<close>

definition joinpath :: "string \<Rightarrow> string \<Rightarrow> string" where
  "joinpath a b = (if a = [] then b else if last a = CHR ''/'' then a @ b else a @ ''/'' @ b)"

text \<open>
  \<^verbatim>\<open>int(s)\<close> for a string: white space around, one sign, then decimal digits with single
  underscores between them; anything else raises \<^verbatim>\<open>ValueError\<close>, and so does a literal of
  more than 4300 digits (the interpreter's default limit). Digits and white space outside
  ASCII are not modelled.
\<close>

definition is_space :: "char \<Rightarrow> bool" where
  "is_space c = (c \<in> set [CHR 0x09, CHR 0x0A, CHR 0x0B, CHR 0x0C, CHR 0x0D,
                            CHR 0x1C, CHR 0x1D, CHR 0x1E, CHR 0x1F, CHR 0x20])"

definition is_digit :: "char \<Rightarrow> bool" where
  "is_digit c = (c \<in> set ''0123456789'')"

definition digit_value :: "char \<Rightarrow> int" where
  "digit_value c =
     (if c = CHR ''1'' then 1 else if c = CHR ''2'' then 2 else if c = CHR ''3'' then 3
      else if c = CHR ''4'' then 4 else if c = CHR ''5'' then 5 else if c = CHR ''6'' then 6
      else if c = CHR ''7'' then 7 else if c = CHR ''8'' then 8 else if c = CHR ''9'' then 9
      else 0)"

definition strip :: "string \<Rightarrow> string" where
  "strip s = rev (dropWhile is_space (rev (dropWhile is_space s)))"

text \<open>Digits and underscores, no underscore first, last or doubled, and not empty.\<close>

fun digits_ok :: "string \<Rightarrow> bool" where
  "digits_ok [] = False"
| "digits_ok [c] = is_digit c"
| "digits_ok (c # d # cs) =
     (if is_digit c then (if d = CHR ''_'' then digits_ok cs else digits_ok (d # cs)) else False)"

definition max_str_digits :: nat where
  "max_str_digits = 4300"

definition int_of_digits :: "string \<Rightarrow> py_error + int" where
  "int_of_digits s =
     (if digits_ok s \<and> length (filter is_digit s) \<le> max_str_digits
      then Inr (foldl (\<lambda>a c. 10 * a + digit_value c) 0 (filter is_digit s))
      else Inl ValueError)"

definition py_int :: "string \<Rightarrow> py_error + int" where
  "py_int s =
     (case strip s of
        [] \<Rightarrow> Inl ValueError
      | c # cs \<Rightarrow>
          if c = CHR ''-'' then (case int_of_digits cs of Inl e \<Rightarrow> Inl e | Inr n \<Rightarrow> Inr (- n))
          else if c = CHR ''+'' then int_of_digits cs
          else int_of_digits (c # cs))"

text \<open>\<^verbatim>\<open>int(x)\<close> where \<open>x\<close> is a string or \<^verbatim>\<open>None\<close>: \<^verbatim>\<open>int(None)\<close> raises \<^verbatim>\<open>TypeError\<close>.\<close>

definition py_int_opt :: "string option \<Rightarrow> py_error + int" where
  "py_int_opt x = (case x of None \<Rightarrow> Inl TypeError | Some s \<Rightarrow> py_int s)"

text \<open>The truth value of a string or \<^verbatim>\<open>None\<close>.\<close>

definition truthy :: "string option \<Rightarrow> bool" where
  "truthy x = (case x of None \<Rightarrow> False | Some s \<Rightarrow> s \<noteq> [])"

section \<open>The element tree\<close>

text \<open>\<^verbatim>\<open>elem.iter()\<close>: the element and all below it, in document order.\<close>

fun iter :: "element \<Rightarrow> element list" where
  "iter (Element t a cs) = Element t a cs # concat (map iter cs)"

text \<open>What the step \<^verbatim>\<open>//\<close> of a path ranges over: all elements below \<open>e\<close>, without \<open>e\<close>.\<close>

definition descendants :: "element \<Rightarrow> element list" where
  "descendants e = concat (map iter (children e))"

text \<open>\<^verbatim>\<open>elem.get(key)\<close>\<close>

definition get_attr :: "element \<Rightarrow> string \<Rightarrow> string option" where
  "get_attr e k = map_of (attrib e) k"

text \<open>
  \<^verbatim>\<open>root.findall(".//component[@name='M']//entry[@key]")\<close>: for every \<^verbatim>\<open>component\<close> below the
  root whose \<^verbatim>\<open>name\<close> is \<open>M\<close>, every \<^verbatim>\<open>entry\<close> below it that has a \<^verbatim>\<open>key\<close>. An entry below two
  such components is listed twice.
\<close>

definition findall_entries :: "string \<Rightarrow> element \<Rightarrow> element list" where
  "findall_entries m root =
     concat (map (\<lambda>c. filter (\<lambda>e. tag e = ''entry'' \<and> get_attr e ''key'' \<noteq> None) (descendants c))
       (filter (\<lambda>c. tag c = ''component'' \<and> get_attr c ''name'' = Some m) (descendants root)))"

text \<open>\<^verbatim>\<open>entry.find(".//option[@name='projectOpenTimestamp']")\<close>: the first one, or \<^verbatim>\<open>None\<close>.\<close>

definition find_opened :: "element \<Rightarrow> element option" where
  "find_opened e =
     (case filter (\<lambda>t. tag t = ''option'' \<and> get_attr t ''name'' = Some ''projectOpenTimestamp'')
             (descendants e) of
        [] \<Rightarrow> None
      | t # _ \<Rightarrow> Some t)"

section \<open>The recent-project parser\<close>

record project =
  name :: string
  path :: string
  last_opened :: int
  ide :: jetbrains_ide

text \<open>\<^verbatim>\<open>_config_dir\<close>\<close>

definition config_dir :: "host \<Rightarrow> string" where
  "config_dir h =
     (if platform h = ''darwin''
      then joinpath (joinpath (home h) ''Library'') ''Application Support''
      else joinpath (home h) ''.config'')"

text \<open>
  \<^verbatim>\<open>_get_recent_projects_entries\<close>, as \<^verbatim>\<open>JetBrainsIde\<close> defines it and as \<^verbatim>\<open>Rider\<close> overrides it;
  the call on an object runs the method of the object's class. \<open>recent_projects_file\<close> is the
  local variable of that name in the two methods.
\<close>

definition recent_projects_file :: "ide_class \<Rightarrow> string \<Rightarrow> string" where
  "recent_projects_file c dir =
     joinpath (joinpath dir ''options'')
       (case c of JetBrainsIde \<Rightarrow> ''recentProjects.xml'' | Rider \<Rightarrow> ''recentSolutions.xml'')"

definition JetBrainsIde_get_recent_projects_entries ::
  "host \<Rightarrow> string \<Rightarrow> py_error + element list" where
  "JetBrainsIde_get_recent_projects_entries h dir =
     (case parse h (recent_projects_file JetBrainsIde dir) of
        Inl e \<Rightarrow> Inl e
      | Inr root \<Rightarrow> Inr (findall_entries ''RecentProjectsManager'' root))"

definition Rider_get_recent_projects_entries ::
  "host \<Rightarrow> string \<Rightarrow> py_error + element list" where
  "Rider_get_recent_projects_entries h dir =
     (case parse h (recent_projects_file Rider dir) of
        Inl e \<Rightarrow> Inl e
      | Inr root \<Rightarrow> Inr (findall_entries ''RiderRecentProjectsManager'' root))"

definition get_recent_projects_entries ::
  "host \<Rightarrow> jetbrains_ide \<Rightarrow> string \<Rightarrow> py_error + element list" where
  "get_recent_projects_entries h self dir =
     (case cls self of
        JetBrainsIde \<Rightarrow> JetBrainsIde_get_recent_projects_entries h dir
      | Rider \<Rightarrow> Rider_get_recent_projects_entries h dir)"

text \<open>\<^verbatim>\<open>file.name.replace(".iml", "")\<close>: every \<^verbatim>\<open>.iml\<close> in the name is taken out.\<close>

definition iml_name :: "string \<Rightarrow> string" where
  "iml_name file = str_replace ''.iml'' [] (path_name file)"

text \<open>
  The inner loop of \<^verbatim>\<open>_parse_project_entries\<close>, \<^verbatim>\<open>for file in files\<close>: a module file whose
  name is not the project's name adds a project; the time is converted again for each, and
  the conversion may raise.
\<close>

fun module_projects ::
  "jetbrains_ide \<Rightarrow> string \<Rightarrow> string \<Rightarrow> string option \<Rightarrow> project list \<Rightarrow> string list
     \<Rightarrow> py_error + project list" where
  "module_projects self project_path project_name opened projects [] = Inr projects"
| "module_projects self project_path project_name opened projects (file # files) =
     (if iml_name file \<noteq> project_name
      then (case py_int_opt opened of
              Inl e \<Rightarrow> Inl e
            | Inr t \<Rightarrow>
                module_projects self project_path project_name opened
                  (projects @ [\<lparr>name = iml_name file, path = project_path,
                                last_opened = t, ide = self\<rparr>])
                  files)
      else module_projects self project_path project_name opened projects files)"

text \<open>
  The statement \<^verbatim>\<open>if project_path and last_opened: projects.append(...)\<close> of one entry.
\<close>

definition directory_project ::
  "jetbrains_ide \<Rightarrow> string \<Rightarrow> string \<Rightarrow> string option \<Rightarrow> project list
     \<Rightarrow> py_error + project list" where
  "directory_project self project_path project_name opened projects =
     (if project_path \<noteq> [] \<and> truthy opened
      then (case py_int_opt opened of
              Inl e \<Rightarrow> Inl e
            | Inr t \<Rightarrow>
                Inr (projects @ [\<lparr>name = project_name, path = project_path,
                                  last_opened = t, ide = self\<rparr>]))
      else Inr projects)"

text \<open>\<^verbatim>\<open>tag_opened.attrib["value"] if tag_opened is not None and "value" in tag_opened.attrib else None\<close>\<close>

definition opened_value :: "element \<Rightarrow> string option" where
  "opened_value e = (case find_opened e of None \<Rightarrow> None | Some t \<Rightarrow> get_attr t ''value'')"

text \<open>
  The body of the loop of \<^verbatim>\<open>_parse_project_entries\<close> for one entry, \<open>projects\<close> being the
  list built so far: the result is the list after the entry, or the exception raised.
\<close>

definition parse_entry ::
  "host \<Rightarrow> jetbrains_ide \<Rightarrow> project list \<Rightarrow> element \<Rightarrow> py_error + project list" where
  "parse_entry h self projects e =
     (case get_attr e ''key'' of
        None \<Rightarrow> Inl KeyError
      | Some key \<Rightarrow>
          (let project_path = str_replace ''$USER_HOME$'' (home h) key;
               project_name = path_name project_path;
               files = glob h (project_path @ ''/.idea'') ''*.iml'';
               opened = opened_value e
           in case directory_project self project_path project_name opened projects of
                Inl err \<Rightarrow> Inl err
              | Inr projects1 \<Rightarrow>
                  module_projects self project_path project_name opened projects1 files))"

text \<open>
  \<^verbatim>\<open>_parse_project_entries\<close>: the loop over the entries. An exception ends the loop and
  the call.
\<close>

fun parse_entries_from ::
  "host \<Rightarrow> jetbrains_ide \<Rightarrow> project list \<Rightarrow> element list \<Rightarrow> py_error + project list" where
  "parse_entries_from h self projects [] = Inr projects"
| "parse_entries_from h self projects (e # es) =
     (case parse_entry h self projects e of
        Inl err \<Rightarrow> Inl err
      | Inr projects1 \<Rightarrow> parse_entries_from h self projects1 es)"

definition parse_project_entries ::
  "host \<Rightarrow> jetbrains_ide \<Rightarrow> element list \<Rightarrow> py_error + project list" where
  "parse_project_entries h self project_entries = parse_entries_from h self [] project_entries"

text \<open>
  \<^verbatim>\<open>except (ElementTree.ParseError, FileNotFoundError): return []\<close> around a computation.
\<close>

definition except_parse_or_missing :: "py_error + project list \<Rightarrow> py_error + project list" where
  "except_parse_or_missing r =
     (case r of
        Inl e \<Rightarrow> if e = ParseError \<or> e = FileNotFoundError then Inr [] else Inl e
      | Inr ps \<Rightarrow> Inr ps)"

text \<open>\<^verbatim>\<open>sorted(dirs)[-1]\<close>, for a list that is not empty.\<close>

definition newest :: "string list \<Rightarrow> string" where
  "newest dirs = last (sort_key path_parts dirs)"

text \<open>
  \<^verbatim>\<open>list_projects\<close>: the loop over the prefixes. The first prefix with a directory decides
  the result.
\<close>

fun list_projects_from :: "host \<Rightarrow> jetbrains_ide \<Rightarrow> string list \<Rightarrow> py_error + project list" where
  "list_projects_from h self [] = Inr []"
| "list_projects_from h self (config_dir_prefix # rest) =
     (let dirs = glob h (config_dir h) (config_dir_prefix @ ''*/'')
      in if dirs \<noteq> []
         then except_parse_or_missing
                (case get_recent_projects_entries h self (newest dirs) of
                   Inl e \<Rightarrow> Inl e
                 | Inr recent_projects_entries \<Rightarrow>
                     parse_project_entries h self recent_projects_entries)
         else list_projects_from h self rest)"

definition list_projects :: "host \<Rightarrow> jetbrains_ide \<Rightarrow> py_error + project list" where
  "list_projects h self = list_projects_from h self (config_dir_prefixes self)"

section \<open>The plugin: candidates, matching, order, items\<close>

record plugin =
  fuzzy :: bool
  match_path :: bool
  editors :: "jetbrains_ide list"

text \<open>
  \<^verbatim>\<open>Plugin.__init__\<close>. \<open>stored\<close> is what \<^verbatim>\<open>readConfig('match_path', bool)\<close> returns and
  \<open>icons_dir\<close> is \<^verbatim>\<open>Path(__file__).parent / "icons"\<close>.
\<close>

definition new_plugin :: "host \<Rightarrow> bool option \<Rightarrow> string \<Rightarrow> plugin" where
  "new_plugin h stored icons_dir =
     \<lparr>fuzzy = False,
      match_path = (case stored of None \<Rightarrow> False | Some b \<Rightarrow> b),
      editors = get_editors h icons_dir\<rparr>"

text \<open>
  \<^verbatim>\<open>_get_projects\<close>: the comprehension over the editors and over each editor's projects,
  keeping a project when its path exists. An exception of \<^verbatim>\<open>list_projects\<close> ends it.
\<close>

fun get_projects_from :: "host \<Rightarrow> jetbrains_ide list \<Rightarrow> py_error + project list" where
  "get_projects_from h [] = Inr []"
| "get_projects_from h (editor # rest) =
     (case list_projects h editor of
        Inl e \<Rightarrow> Inl e
      | Inr ps \<Rightarrow>
          (case get_projects_from h rest of
             Inl e \<Rightarrow> Inl e
           | Inr qs \<Rightarrow> Inr (filter (\<lambda>p. path_exists h (path p)) ps @ qs)))"

definition get_projects :: "host \<Rightarrow> plugin \<Rightarrow> py_error + project list" where
  "get_projects h self = get_projects_from h (editors self)"

text \<open>The strings handed to \<^verbatim>\<open>matcher.match\<close> for one project.\<close>

definition match_fields :: "plugin \<Rightarrow> project \<Rightarrow> string list" where
  "match_fields self p = (if match_path self then [name p, path p] else [name p])"

text \<open>
  \<^verbatim>\<open>list.sort(key=..., reverse=True)\<close>: the list is reversed, sorted stably, and reversed
  again, so equal keys keep their order.
\<close>

definition sort_reverse :: "('a \<Rightarrow> int) \<Rightarrow> 'a list \<Rightarrow> 'a list" where
  "sort_reverse k xs = rev (sort_key k (rev xs))"

text \<open>The list \<^verbatim>\<open>matches\<close> of \<^verbatim>\<open>items\<close>, after the sort.\<close>

definition matches :: "host \<Rightarrow> plugin \<Rightarrow> string \<Rightarrow> py_error + project list" where
  "matches h self query =
     (case get_projects h self of
        Inl e \<Rightarrow> Inl e
      | Inr ps \<Rightarrow>
          Inr (sort_reverse last_opened
                 (filter (\<lambda>p. matcher_match h query (fuzzy self) (match_fields self p)) ps)))"

text \<open>\<^verbatim>\<open>"%s" % n\<close> for an integer and for a string or \<^verbatim>\<open>None\<close>.\<close>

definition digit_char :: "int \<Rightarrow> char" where
  "digit_char d =
     (if d = 1 then CHR ''1'' else if d = 2 then CHR ''2'' else if d = 3 then CHR ''3''
      else if d = 4 then CHR ''4'' else if d = 5 then CHR ''5'' else if d = 6 then CHR ''6''
      else if d = 7 then CHR ''7'' else if d = 8 then CHR ''8'' else if d = 9 then CHR ''9''
      else CHR ''0'')"

function str_digits :: "int \<Rightarrow> string" where
  "str_digits n =
     (if n < 10 then [digit_char n] else str_digits (n div 10) @ [digit_char (n mod 10)])"
  by pat_completeness auto
termination
  by (relation "measure nat") auto

declare str_digits.simps [simp del]

definition str_int :: "int \<Rightarrow> string" where
  "str_int i = (if i < 0 then CHR ''-'' # str_digits (- i) else str_digits i)"

definition str_opt :: "string option \<Rightarrow> string" where
  "str_opt x = (case x of None \<Rightarrow> ''None'' | Some s \<Rightarrow> s)"

record action =
  action_id :: string
  action_text :: string
  run_detached_process :: "string option list"
    \<comment> \<open>the command line the action starts when it is chosen\<close>

record standard_item =
  item_id :: string
  item_text :: string
  subtext :: string
  input_action_text :: string
  icon_image :: string
    \<comment> \<open>the file \<^verbatim>\<open>icon_factory\<close> loads when it is called\<close>
  actions :: "action list"

text \<open>The body of \<^verbatim>\<open>_make_item\<close>, for an editor and a project.\<close>

definition make_item_body :: "jetbrains_ide \<Rightarrow> project \<Rightarrow> standard_item" where
  "make_item_body editor p =
     \<lparr>item_id = str_opt (binary editor) @ ''-'' @ path p @ ''-'' @ str_int (last_opened p),
      item_text = name p,
      subtext = path p,
      input_action_text = name p,
      icon_image = icon editor,
      actions =
        [\<lparr>action_id = ''Open'',
          action_text = ''Open in '' @ jetbrains_ide.name editor,
          run_detached_process = [binary editor, Some (path p)]\<rparr>]\<rparr>"

text \<open>
  \<^verbatim>\<open>_make_item\<close> is a static method of two positional parameters, \<open>editor\<close> and \<open>project\<close>.
  A call binds the arguments it is given to them: with any other number of arguments the
  call raises \<^verbatim>\<open>TypeError\<close> before the body runs. In the body, \<open>editor\<close> must have the
  attributes of a \<^verbatim>\<open>JetBrainsIde\<close> and \<open>project\<close> those of a \<^verbatim>\<open>Project\<close>.
\<close>

datatype py_object = IdeObject jetbrains_ide | ProjectObject project

fun make_item :: "py_object list \<Rightarrow> py_error + standard_item" where
  "make_item [IdeObject editor, ProjectObject p] = Inr (make_item_body editor p)"
| "make_item [a, b] = Inl AttributeError"
| "make_item args = Inl TypeError"

text \<open>
  \<^verbatim>\<open>[self._make_item(project) for project in matches]\<close>: a static method gets no \<open>self\<close>, so
  the project is the only argument of each call.
\<close>

fun make_items :: "project list \<Rightarrow> py_error + standard_item list" where
  "make_items [] = Inr []"
| "make_items (p # ps) =
     (case make_item [ProjectObject p] of
        Inl e \<Rightarrow> Inl e
      | Inr i \<Rightarrow> (case make_items ps of Inl e \<Rightarrow> Inl e | Inr is \<Rightarrow> Inr (i # is)))"

text \<open>\<^verbatim>\<open>items\<close>: the one batch the generator yields, or the exception it raises.\<close>

definition items :: "host \<Rightarrow> plugin \<Rightarrow> string \<Rightarrow> py_error + standard_item list" where
  "items h self query =
     (case matches h self query of Inl e \<Rightarrow> Inl e | Inr ms \<Rightarrow> make_items ms)"

section \<open>A sample machine\<close>

text \<open>
  One state of a machine to run the plugin on. Four of the editors are installed. PyCharm
  has three configuration directories, the newest with four recent projects, one of them
  deleted from the disk since. CLion's file is not well-formed. IntelliJ IDEA is found under
  its second prefix, with one entry that has no time. Rider has one solution, whose
  directory holds two module files. The matcher of the sample looks for the query as a
  substring.
\<close>

fun contains :: "string \<Rightarrow> string \<Rightarrow> bool" where
  "contains q [] = (q = [])"
| "contains q (c # cs) = (prefix q (c # cs) \<or> contains q cs)"

definition recent_entry :: "string \<Rightarrow> (string \<times> string) list \<Rightarrow> element" where
  "recent_entry key opened =
     Element ''entry'' [(''key'', key)]
       [Element ''value'' []
          [Element ''RecentProjectMetaInfo'' [(''projectWorkspaceId'', ''w'')]
             [Element ''option'' [(''name'', ''build''), (''value'', ''IU-241'')] [],
              Element ''option'' opened []]]]"

definition opened_at :: "string \<Rightarrow> (string \<times> string) list" where
  "opened_at t = [(''name'', ''projectOpenTimestamp''), (''value'', t)]"

definition recent_document :: "string \<Rightarrow> element list \<Rightarrow> element" where
  "recent_document m es =
     Element ''application'' []
       [Element ''component'' [(''name'', m)]
          [Element ''option'' [(''name'', ''additionalInfo'')] [Element ''map'' [] es]]]"

definition demo_host :: host where
  "demo_host =
     \<lparr>platform = ''linux'',
      home = ''/home/u'',
      which = (\<lambda>c. if c \<in> set [''clion'', ''idea.sh'', ''pycharm'', ''rider'']
                     then Some (''/usr/bin/'' @ c) else None),
      glob = (\<lambda>d p.
        if d = ''/home/u/.config'' \<and> p = ''JetBrains/PyCharm*/'' then
          [''/home/u/.config/JetBrains/PyCharm2023.3'',
           ''/home/u/.config/JetBrains/PyCharm2024.2'',
           ''/home/u/.config/JetBrains/PyCharm2024.1'']
        else if d = ''/home/u/.config'' \<and> p = ''JetBrains/CLion*/'' then
          [''/home/u/.config/JetBrains/CLion2024.1'']
        else if d = ''/home/u/.config'' \<and> p = ''JetBrains/Idea*/'' then
          [''/home/u/.config/JetBrains/IdeaIC2024.1'']
        else if d = ''/home/u/.config'' \<and> p = ''JetBrains/Rider*/'' then
          [''/home/u/.config/JetBrains/Rider2024.1'']
        else if d = ''/home/u/work/app/.idea'' \<and> p = ''*.iml'' then
          [''/home/u/work/app/.idea/app.iml'', ''/home/u/work/app/.idea/foo.iml'']
        else []),
      parse = (\<lambda>f.
        if f = ''/home/u/.config/JetBrains/PyCharm2024.2/options/recentProjects.xml'' then
          Inr (recent_document ''RecentProjectsManager''
                 [recent_entry ''$USER_HOME$/proj-a'' (opened_at ''100''),
                  recent_entry ''$USER_HOME$/proj-b'' (opened_at ''300''),
                  recent_entry ''/srv/gone'' (opened_at ''400''),
                  recent_entry ''$USER_HOME$/proj-c'' (opened_at ''200'')])
        else if f = ''/home/u/.config/JetBrains/PyCharm2023.3/options/recentProjects.xml'' then
          Inr (recent_document ''RecentProjectsManager''
                 [recent_entry ''$USER_HOME$/old'' (opened_at ''50'')])
        else if f = ''/home/u/.config/JetBrains/CLion2024.1/options/recentProjects.xml'' then
          Inl ParseError
        else if f = ''/home/u/.config/JetBrains/IdeaIC2024.1/options/recentProjects.xml'' then
          Inr (recent_document ''RecentProjectsManager''
                 [recent_entry ''$USER_HOME$/notes'' [(''name'', ''projectOpenTimestamp'')]])
        else if f = ''/home/u/.config/JetBrains/Rider2024.1/options/recentSolutions.xml'' then
          Inr (recent_document ''RiderRecentProjectsManager''
                 [recent_entry ''$USER_HOME$/work/app'' (opened_at ''1700000000'')])
        else Inl FileNotFoundError),
      path_exists = (\<lambda>p. p \<in> set [''/home/u/proj-a'', ''/home/u/proj-b'', ''/home/u/proj-c'',
                                     ''/home/u/old'', ''/home/u/notes'', ''/home/u/work/app'']),
      matcher_match = (\<lambda>query f strings. list_ex (contains query) strings)\<rparr>"

definition clion :: jetbrains_ide where
  "clion = \<lparr>cls = JetBrainsIde, name = ''CLion'', icon = ''/plugin/icons/clion.svg'',
             config_dir_prefixes = [''JetBrains/CLion''], binary = Some ''clion''\<rparr>"

definition idea :: jetbrains_ide where
  "idea = \<lparr>cls = JetBrainsIde, name = ''IntelliJ IDEA'', icon = ''/plugin/icons/idea.svg'',
            config_dir_prefixes = [''JetBrains/IntelliJIdea'', ''JetBrains/Idea''],
            binary = Some ''idea.sh''\<rparr>"

definition pycharm :: jetbrains_ide where
  "pycharm = \<lparr>cls = JetBrainsIde, name = ''PyCharm'', icon = ''/plugin/icons/pycharm.svg'',
               config_dir_prefixes = [''JetBrains/PyCharm''], binary = Some ''pycharm''\<rparr>"

definition rider :: jetbrains_ide where
  "rider = \<lparr>cls = Rider, name = ''Rider'', icon = ''/plugin/icons/rider.svg'',
             config_dir_prefixes = [''JetBrains/Rider''], binary = Some ''rider''\<rparr>"


text \<open>The plugin as the launcher builds it on the sample machine, with nothing stored.\<close>

definition demo_plugin :: plugin where
  "demo_plugin = new_plugin demo_host None ''/plugin/icons''"



text \<open>
  The same machine where Rider's file lists two solutions, the second without the time of
  its last opening.
\<close>

definition untimed_host :: host where
  "untimed_host =
     demo_host\<lparr>parse := \<lambda>f.
       Inr (recent_document ''RiderRecentProjectsManager''
              [recent_entry ''$USER_HOME$/proj-a'' (opened_at ''100''),
               recent_entry ''$USER_HOME$/work/app'' [(''name'', ''projectOpenTimestamp'')]])\<rparr>"


section \<open>The registry holds the variants that can be started\<close>

lemma find_binary_None: "find_binary h bs = None \<longleftrightarrow> (\<forall>b\<in>set bs. \<not> found h b)"
  by (induction bs) auto

lemma find_binary_Some:
  "find_binary h bs = Some b \<longleftrightarrow>
     (\<exists>pre post. bs = pre @ b # post \<and> found h b \<and> (\<forall>x\<in>set pre. \<not> found h x))"
proof (induction bs)
  case Nil
  then show ?case by simp
next
  case (Cons a bs)
  show ?case
  proof (cases "found h a")
    case True
    have "(\<exists>pre post. a # bs = pre @ b # post \<and> found h b \<and> (\<forall>x\<in>set pre. \<not> found h x)) \<longleftrightarrow> a = b"
    proof
      assume "\<exists>pre post. a # bs = pre @ b # post \<and> found h b \<and> (\<forall>x\<in>set pre. \<not> found h x)"
      then obtain pre post where *: "a # bs = pre @ b # post" "\<forall>x\<in>set pre. \<not> found h x" by blast
      show "a = b"
      proof (cases pre)
        case Nil
        with * show ?thesis by simp
      next
        case (Cons p ps)
        with * True show ?thesis by auto
      qed
    next
      assume "a = b"
      with True have "a # bs = [] @ b # bs \<and> found h b \<and> (\<forall>x\<in>set []. \<not> found h x)" by simp
      then show "\<exists>pre post. a # bs = pre @ b # post \<and> found h b \<and> (\<forall>x\<in>set pre. \<not> found h x)" by blast
    qed
    with True show ?thesis by auto
  next
    case False
    have "(\<exists>pre post. a # bs = pre @ b # post \<and> found h b \<and> (\<forall>x\<in>set pre. \<not> found h x)) \<longleftrightarrow>
          (\<exists>pre post. bs = pre @ b # post \<and> found h b \<and> (\<forall>x\<in>set pre. \<not> found h x))"
    proof
      assume "\<exists>pre post. a # bs = pre @ b # post \<and> found h b \<and> (\<forall>x\<in>set pre. \<not> found h x)"
      then obtain pre post where *: "a # bs = pre @ b # post" "found h b" "\<forall>x\<in>set pre. \<not> found h x" by blast
      show "\<exists>pre post. bs = pre @ b # post \<and> found h b \<and> (\<forall>x\<in>set pre. \<not> found h x)"
      proof (cases pre)
        case Nil
        with * False show ?thesis by simp
      next
        case (Cons p ps)
        with * have "bs = ps @ b # post \<and> found h b \<and> (\<forall>x\<in>set ps. \<not> found h x)" by simp
        then show ?thesis by blast
      qed
    next
      assume "\<exists>pre post. bs = pre @ b # post \<and> found h b \<and> (\<forall>x\<in>set pre. \<not> found h x)"
      then obtain pre post where *: "bs = pre @ b # post" "found h b" "\<forall>x\<in>set pre. \<not> found h x" by blast
      with False have "a # bs = (a # pre) @ b # post \<and> found h b \<and> (\<forall>x\<in>set (a # pre). \<not> found h x)" by simp
      then show "\<exists>pre post. a # bs = pre @ b # post \<and> found h b \<and> (\<forall>x\<in>set pre. \<not> found h x)" by blast
    qed
    with False Cons.IH show ?thesis by simp
  qed
qed

lemma length_filter_all: "length (filter P xs) = length xs \<longleftrightarrow> (\<forall>x\<in>set xs. P x)"
proof (induction xs)
  case Nil
  then show ?case by simp
next
  case (Cons x xs)
  have le: "length (filter P xs) \<le> length xs" by (rule length_filter_le)
  show ?case
  proof (cases "P x")
    case True
    with Cons show ?thesis by simp
  next
    case False
    from le have "length (filter P xs) \<noteq> Suc (length xs)" by linarith
    with False show ?thesis by simp
  qed
qed

lemma ide_table_names: "distinct (map entry_name (ide_table d))"
  by (simp add: ide_table_def table_entry_def)

lemma length_ide_table: "length (ide_table d) = 14"
  by (simp add: ide_table_def)

lemma name_new_ide: "jetbrains_ide.name (new_ide h v) = entry_name v"
  by (simp add: new_ide_def)

lemma binary_new_ide: "binary (new_ide h v) = find_binary h (binaries v)"
  by (simp add: new_ide_def)

text \<open>
  C10. On every host, a variant of the table none of whose candidate executables the command
  lookup finds is not in the registry \<^verbatim>\<open>get_editors\<close> builds; every variant in the registry was
  built from an entry of the table and its executable is the first candidate, in the order
  of the entry, that the lookup finds; and the registry is no longer than the table, and as
  long exactly when every entry has a candidate that is found.
\<close>

theorem get_editors_registry:
  "length (get_editors h d) \<le> length (ide_table d)
   \<and> (length (get_editors h d) = length (ide_table d)
        \<longleftrightarrow> (\<forall>v\<in>set (ide_table d). \<exists>b\<in>set (binaries v). found h b))
   \<and> (\<forall>v\<in>set (ide_table d). (\<forall>b\<in>set (binaries v). \<not> found h b)
        \<longrightarrow> entry_name v \<notin> jetbrains_ide.name ` set (get_editors h d))
   \<and> (\<forall>e\<in>set (get_editors h d). \<exists>v\<in>set (ide_table d). e = new_ide h v \<and>
        (\<exists>pre b post. binaries v = pre @ b # post \<and> binary e = Some b \<and> found h b
           \<and> (\<forall>x\<in>set pre. \<not> found h x)))"
proof (intro conjI ballI impI)
  show "length (get_editors h d) \<le> length (ide_table d)"
    by (simp add: get_editors_def length_filter_le [THEN order_trans])
next
  have "length (get_editors h d) = length (ide_table d)
        \<longleftrightarrow> (\<forall>v\<in>set (ide_table d). find_binary h (binaries v) \<noteq> None)"
    using length_filter_all [of "\<lambda>e. binary e \<noteq> None" "map (new_ide h) (ide_table d)"]
    by (simp add: get_editors_def binary_new_ide)
  then show "length (get_editors h d) = length (ide_table d)
        \<longleftrightarrow> (\<forall>v\<in>set (ide_table d). \<exists>b\<in>set (binaries v). found h b)"
    by (simp add: find_binary_None)
next
  fix v
  assume v: "v \<in> set (ide_table d)" and none: "\<forall>b\<in>set (binaries v). \<not> found h b"
  show "entry_name v \<notin> jetbrains_ide.name ` set (get_editors h d)"
  proof
    assume "entry_name v \<in> jetbrains_ide.name ` set (get_editors h d)"
    then obtain w where w: "w \<in> set (ide_table d)" "binary (new_ide h w) \<noteq> None"
      "entry_name v = jetbrains_ide.name (new_ide h w)"
      by (auto simp: get_editors_def)
    from ide_table_names have "inj_on entry_name (set (ide_table d))"
      by (simp add: distinct_map)
    with v w have "w = v" by (simp add: name_new_ide inj_on_def)
    with w none show False by (simp add: binary_new_ide find_binary_None)
  qed
next
  fix e
  assume "e \<in> set (get_editors h d)"
  then obtain v where v: "v \<in> set (ide_table d)" "e = new_ide h v" "binary e \<noteq> None"
    by (auto simp: get_editors_def)
  then obtain b where "find_binary h (binaries v) = Some b"
    by (auto simp: binary_new_ide)
  with v have "\<exists>pre b post. binaries v = pre @ b # post \<and> binary e = Some b \<and> found h b
           \<and> (\<forall>x\<in>set pre. \<not> found h x)"
    using find_binary_Some [of h "binaries v" b] by (auto simp: binary_new_ide)
  with v show "\<exists>v\<in>set (ide_table d). e = new_ide h v \<and>
        (\<exists>pre b post. binaries v = pre @ b # post \<and> binary e = Some b \<and> found h b
           \<and> (\<forall>x\<in>set pre. \<not> found h x))" by blast
qed


theorem get_editors_registry_witness:
  "length (get_editors demo_host ''/plugin/icons'') \<le> length (ide_table ''/plugin/icons'')
   \<and> length (get_editors demo_host ''/plugin/icons'') \<noteq> length (ide_table ''/plugin/icons'')
   \<and> ''Aqua'' \<notin> jetbrains_ide.name ` set (get_editors demo_host ''/plugin/icons'')
   \<and> pycharm \<in> set (get_editors demo_host ''/plugin/icons'')
   \<and> (\<exists>pre post. [''charm'', ''pycharm'', ''pycharm-eap'', ''pycharm-professional'']
           = pre @ ''pycharm'' # post \<and> binary pycharm = Some ''pycharm''
           \<and> found demo_host ''pycharm'' \<and> list_all (\<lambda>x. \<not> found demo_host x) pre)"
proof -
  let ?d = "''/plugin/icons''"
  let ?aqua = "table_entry JetBrainsIde ''Aqua'' (icon_path ?d ''aqua.svg'')
       [''JetBrains/Aqua''] [''aqua'', ''aqua-eap'']"
  note registry = get_editors_registry [of demo_host ?d]
  have aqua: "?aqua \<in> set (ide_table ?d)"
    by (simp add: ide_table_def)
  have not_found: "\<forall>b\<in>set (binaries ?aqua). \<not> found demo_host b"
    by (simp add: table_entry_def found_def demo_host_def)
  have name: "entry_name ?aqua = ''Aqua''"
    by (simp add: table_entry_def)
  from registry aqua not_found name
  have 1: "''Aqua'' \<notin> jetbrains_ide.name ` set (get_editors demo_host ?d)"
    by metis
  from registry aqua not_found
  have 2: "length (get_editors demo_host ?d) \<noteq> length (ide_table ?d)"
    by blast
  have 3: "pycharm \<in> set (get_editors demo_host ?d)"
    by (simp add: get_editors_def ide_table_def table_entry_def new_ide_def found_def
        demo_host_def pycharm_def icon_path_def)
  have 4: "[''charm'', ''pycharm'', ''pycharm-eap'', ''pycharm-professional'']
           = [''charm''] @ ''pycharm'' # [''pycharm-eap'', ''pycharm-professional'']
         \<and> binary pycharm = Some ''pycharm''
         \<and> found demo_host ''pycharm'' \<and> list_all (\<lambda>x. \<not> found demo_host x) [''charm'']"
    by (simp add: pycharm_def found_def demo_host_def)
  from registry 1 2 3 4 show ?thesis by blast
qed

section \<open>The parser, entry by entry\<close>

lemma split_sep_not_Nil: "split_sep xs \<noteq> []"
  by (induction xs) (auto split: list.splits)

lemma split_sep_append: "split_sep (xs @ CHR ''/'' # ys) = split_sep xs @ split_sep ys"
  using split_sep_not_Nil by (induction xs) (auto split: list.splits)

lemma path_name_work_app: "path_name (hm @ ''/work/app'') = ''app''"
proof -
  have "path_tail (hm @ ''/work/app'') = path_tail hm @ [''work'', ''app'']"
    using split_sep_append [of hm "''work/app''"] by (simp add: path_tail_def)
  then show ?thesis by (simp add: path_name_def)
qed

lemma replace_user_home:
  "str_replace ''$USER_HOME$'' hm ''$USER_HOME$/work/app'' = hm @ ''/work/app''"
  by simp

lemma py_int_1700000000: "py_int ''1700000000'' = Inr 1700000000"
  by (simp add: py_int_def strip_def int_of_digits_def is_space_def is_digit_def
      digit_value_def max_str_digits_def)

text \<open>The inner loop, when the time converts: one project per file whose name differs.\<close>

lemma module_projects_Inr:
  "py_int_opt opened = Inr t \<Longrightarrow>
   module_projects self pp pn opened acc files =
     Inr (acc @ map (\<lambda>n. \<lparr>name = n, path = pp, last_opened = t, ide = self\<rparr>)
                  (filter (\<lambda>n. n \<noteq> pn) (map iml_name files)))"
  by (induction files arbitrary: acc) simp_all

text \<open>The inner loop, when the time does not convert: the first differing name raises.\<close>

lemma module_projects_Inl:
  "py_int_opt opened = Inl err \<Longrightarrow>
   module_projects self pp pn opened acc files =
     (if list_all (\<lambda>f. iml_name f = pn) files then Inr acc else Inl err)"
  by (induction files arbitrary: acc) simp_all


lemma directory_project_acc:
  "directory_project self pp pn opened acc =
     (case directory_project self pp pn opened [] of
        Inl e \<Rightarrow> Inl e | Inr ps \<Rightarrow> Inr (acc @ ps))"
  by (simp add: directory_project_def split: sum.splits)

lemma module_projects_acc:
  "module_projects self pp pn opened acc files =
     (case module_projects self pp pn opened [] files of
        Inl e \<Rightarrow> Inl e | Inr ps \<Rightarrow> Inr (acc @ ps))"
proof (cases "py_int_opt opened")
  case (Inl err)
  then show ?thesis by (simp add: module_projects_Inl)
next
  case (Inr t)
  then show ?thesis by (simp add: module_projects_Inr)
qed

lemma parse_entry_acc:
  "parse_entry h self acc e =
     (case parse_entry h self [] e of Inl x \<Rightarrow> Inl x | Inr ps \<Rightarrow> Inr (acc @ ps))"
proof (cases "get_attr e ''key''")
  case None
  then show ?thesis by (simp add: parse_entry_def)
next
  case (Some key)
  define pp where "pp = str_replace ''$USER_HOME$'' (home h) key"
  define files where "files = glob h (pp @ ''/.idea'') ''*.iml''"
  have unfold: "parse_entry h self a e =
      (case directory_project self pp (path_name pp) (opened_value e) a of
         Inl err \<Rightarrow> Inl err
       | Inr p1 \<Rightarrow> module_projects self pp (path_name pp) (opened_value e) p1 files)" for a
    unfolding pp_def files_def using Some by (simp add: parse_entry_def Let_def)
  show ?thesis
  proof (cases "directory_project self pp (path_name pp) (opened_value e) []")
    case (Inl err)
    then show ?thesis
      using directory_project_acc [of self pp "path_name pp" "opened_value e" acc]
      by (simp add: unfold)
  next
    case (Inr d)
    then have "directory_project self pp (path_name pp) (opened_value e) acc = Inr (acc @ d)"
      using directory_project_acc [of self pp "path_name pp" "opened_value e" acc] by simp
    with Inr show ?thesis
      using module_projects_acc [of self pp "path_name pp" "opened_value e" "acc @ d" files]
        module_projects_acc [of self pp "path_name pp" "opened_value e" d files]
      by (simp add: unfold split: sum.splits)
  qed
qed

lemma parse_entries_from_acc:
  "parse_entries_from h self acc es =
     (case parse_entries_from h self [] es of Inl x \<Rightarrow> Inl x | Inr ps \<Rightarrow> Inr (acc @ ps))"
proof (induction es arbitrary: acc)
  case Nil
  then show ?case by simp
next
  case (Cons e es)
  show ?case
  proof (cases "parse_entry h self [] e")
    case (Inl x)
    then show ?thesis using parse_entry_acc [of h self acc e] by simp
  next
    case (Inr ps)
    then have "parse_entry h self acc e = Inr (acc @ ps)"
      using parse_entry_acc [of h self acc e] by simp
    with Inr show ?thesis
      using Cons.IH [of "acc @ ps"] Cons.IH [of ps] by (simp split: sum.splits)
  qed
qed

lemma parse_entries_from_append:
  "parse_entries_from h self acc (xs @ ys) =
     (case parse_entries_from h self acc xs of
        Inl x \<Rightarrow> Inl x
      | Inr ps \<Rightarrow> parse_entries_from h self ps ys)"
  by (induction xs arbitrary: acc) (simp_all split: sum.splits)

lemma parse_project_entries_append:
  "parse_project_entries h self (xs @ ys) =
     (case parse_project_entries h self xs of
        Inl x \<Rightarrow> Inl x
      | Inr ps \<Rightarrow>
          (case parse_project_entries h self ys of Inl x \<Rightarrow> Inl x | Inr qs \<Rightarrow> Inr (ps @ qs)))"
proof (cases "parse_entries_from h self [] xs")
  case (Inl x)
  then show ?thesis by (simp add: parse_project_entries_def parse_entries_from_append)
next
  case (Inr ps)
  then show ?thesis
    using parse_entries_from_acc [of h self ps ys]
    by (simp add: parse_project_entries_def parse_entries_from_append)
qed

lemma py_int_not_empty: "py_int s = Inr t \<Longrightarrow> s \<noteq> []"
  by (auto simp: py_int_def strip_def)

text \<open>One entry whose time converts: the directory's project, then the module files'.\<close>

lemma parse_entry_with_time:
  assumes "get_attr e ''key'' = Some key" and "opened_value e = Some v" and "py_int v = Inr t"
  shows "parse_project_entries h self [e] =
     (let project_path = str_replace ''$USER_HOME$'' (home h) key
      in Inr ((if project_path = [] then []
               else [\<lparr>name = path_name project_path, path = project_path,
                       last_opened = t, ide = self\<rparr>])
              @ map (\<lambda>n. \<lparr>name = n, path = project_path, last_opened = t, ide = self\<rparr>)
                  (filter (\<lambda>n. n \<noteq> path_name project_path)
                     (map iml_name (glob h (project_path @ ''/.idea'') ''*.iml'')))))"
proof -
  from assms have conv: "py_int_opt (Some v) = Inr t" and "truthy (Some v)"
    using py_int_not_empty [of v t] by (simp_all add: py_int_opt_def truthy_def)
  with assms show ?thesis
    by (simp add: parse_project_entries_def parse_entry_def directory_project_def Let_def
        module_projects_Inr [OF conv])
qed

text \<open>One entry with no time: nothing, or the exception of \<^verbatim>\<open>int(None)\<close>.\<close>

lemma parse_entry_without_time:
  assumes "get_attr e ''key'' = Some key" and "opened_value e = None"
  shows "parse_project_entries h self [e] =
     (let project_path = str_replace ''$USER_HOME$'' (home h) key
      in if list_all (\<lambda>f. iml_name f = path_name project_path)
              (glob h (project_path @ ''/.idea'') ''*.iml'')
         then Inr [] else Inl TypeError)"
proof -
  have conv: "py_int_opt None = Inl TypeError" and "\<not> truthy None"
    by (simp_all add: py_int_opt_def truthy_def)
  with assms show ?thesis
    by (simp add: parse_project_entries_def parse_entry_def directory_project_def Let_def
        module_projects_Inl [OF conv])
qed







lemma get_attr_recent_entry: "get_attr (recent_entry k a) ''key'' = Some k"
  by (simp add: get_attr_def recent_entry_def)

lemma opened_value_recent_entry:
  "opened_value (recent_entry k (opened_at t)) = Some t"
  by (simp add: opened_value_def find_opened_def descendants_def recent_entry_def opened_at_def
      get_attr_def)

lemma parse_project_entries_middle:
  "parse_project_entries h self (before @ e # after) =
     (case parse_project_entries h self before of
        Inl x \<Rightarrow> Inl x
      | Inr a \<Rightarrow>
          (case parse_project_entries h self [e] of
             Inl x \<Rightarrow> Inl x
           | Inr b \<Rightarrow>
               (case parse_project_entries h self after of
                  Inl x \<Rightarrow> Inl x
                | Inr c \<Rightarrow> Inr (a @ b @ c))))"
proof -
  have "parse_project_entries h self (e # after) =
      (case parse_project_entries h self [e] of
         Inl x \<Rightarrow> Inl x
       | Inr b \<Rightarrow>
          (case parse_project_entries h self after of Inl x \<Rightarrow> Inl x | Inr c \<Rightarrow> Inr (b @ c)))"
    using parse_project_entries_append [of h self "[e]" after] by simp
  then show ?thesis
    unfolding parse_project_entries_append [of h self before "e # after"]
    by (simp split: sum.splits)
qed

lemma parse_project_entries_member:
  assumes "parse_project_entries h self [e] = Inr b" and "p \<in> set b"
    and "parse_project_entries h self (before @ e # after) = Inr ps"
  shows "p \<in> set ps"
proof -
  from assms(3) have "\<exists>a c. ps = a @ b @ c"
    unfolding parse_project_entries_middle [of h self before e after]
    using assms(1) by (auto split: sum.splits)
  with assms(2) show ?thesis by auto
qed

text \<open>
  C4. An entry whose key is \<^verbatim>\<open>$USER_HOME$/work/app\<close> and whose time of opening reads
  \<^verbatim>\<open>1700000000\<close> gives, on every host and for every editor, a project with the home
  directory followed by \<^verbatim>\<open>/work/app\<close> as its path, \<^verbatim>\<open>app\<close> as its name and the integer
  1700000000 as \<open>last_opened\<close>: it is the first project parsed from the entry alone, and it is
  in the result whenever a list holding the entry is parsed to a result.
\<close>

theorem user_home_entry_project:
  assumes "get_attr e ''key'' = Some ''$USER_HOME$/work/app''"
    and "opened_value e = Some ''1700000000''"
  shows "(\<exists>ms. parse_project_entries h self [e] =
            Inr (\<lparr>name = ''app'', path = home h @ ''/work/app'',
                   last_opened = 1700000000, ide = self\<rparr> # ms))
       \<and> (\<forall>before after ps. parse_project_entries h self (before @ e # after) = Inr ps
            \<longrightarrow> \<lparr>name = ''app'', path = home h @ ''/work/app'',
                   last_opened = 1700000000, ide = self\<rparr> \<in> set ps)"
proof -
  let ?P = "\<lparr>name = ''app'', path = home h @ ''/work/app'',
             last_opened = 1700000000, ide = self\<rparr>"
  have nonempty: "home h @ ''/work/app'' \<noteq> []" by simp
  have "\<exists>ms. parse_project_entries h self [e] = Inr (?P # ms)"
    unfolding parse_entry_with_time [OF assms py_int_1700000000, of h self] Let_def
      replace_user_home path_name_work_app
    using nonempty by (simp del: str_replace.simps)
  then obtain ms where ms: "parse_project_entries h self [e] = Inr (?P # ms)" ..
  have "?P \<in> set ps"
    if "parse_project_entries h self (before @ e # after) = Inr ps" for before after ps
    using parse_project_entries_member [OF ms _ that] by simp
  with ms show ?thesis by blast
qed

lemma home_demo_host: "home demo_host = ''/home/u''"
  by (simp add: demo_host_def)

theorem user_home_entry_project_witness:
  "\<exists>ms. parse_project_entries demo_host rider
           [recent_entry ''$USER_HOME$/work/app'' (opened_at ''1700000000'')] =
         Inr (\<lparr>name = ''app'', path = ''/home/u/work/app'',
                last_opened = 1700000000, ide = rider\<rparr> # ms)"
proof -
  let ?e = "recent_entry ''$USER_HOME$/work/app'' (opened_at ''1700000000'')"
  have key: "get_attr ?e ''key'' = Some ''$USER_HOME$/work/app''"
    by (rule get_attr_recent_entry)
  have opened: "opened_value ?e = Some ''1700000000''"
    by (rule opened_value_recent_entry)
  from user_home_entry_project [OF key opened, of demo_host rider]
  show ?thesis by (simp add: home_demo_host)
qed




text \<open>
  C2. An entry with no time of opening, whose directory holds a module file named otherwise
  than the directory (here \<^verbatim>\<open>foo.iml\<close> in \<^verbatim>\<open>app\<close>): the inner loop converts the missing time,
  \<^verbatim>\<open>int(None)\<close>, and the parser raises \<^verbatim>\<open>TypeError\<close>. Nothing catches it in \<^verbatim>\<open>list_projects\<close>, so
  the projects of the other entries are lost with it.
\<close>

theorem missing_time_raises:
  "parse_project_entries demo_host rider
     [recent_entry ''$USER_HOME$/work/app'' [(''name'', ''projectOpenTimestamp'')]]
     = Inl TypeError
   \<and> parse_project_entries demo_host rider [recent_entry ''$USER_HOME$/work/app'' []]
     = Inl TypeError
   \<and> list_projects untimed_host rider = Inl TypeError"
  by code_simp

section \<open>The directory that is read, and the errors that are caught\<close>

lemma sorted_le_last:
  assumes "sorted xs" and "x \<in> set xs"
  shows "x \<le> last (xs :: 'a :: linorder list)"
proof -
  from assms(2) have ne: "xs \<noteq> []" by auto
  then have split: "xs = butlast xs @ [last xs]" by simp
  with assms(1) have "sorted (butlast xs @ [last xs])" by simp
  then have "\<forall>y\<in>set (butlast xs). y \<le> last xs"
    by (simp add: sorted_append)
  moreover from assms(2) split have "x \<in> set (butlast xs) \<or> x = last xs"
    by (metis in_set_conv_decomp_first list.distinct(1) rotate1.simps(2) set_ConsD set_rotate1)
  ultimately show ?thesis by auto
qed

lemma newest_in: "dirs \<noteq> [] \<Longrightarrow> newest dirs \<in> set dirs"
proof -
  assume "dirs \<noteq> []"
  then have "sort_key path_parts dirs \<noteq> []"
    by (metis set_sort set_empty)
  then have "last (sort_key path_parts dirs) \<in> set (sort_key path_parts dirs)"
    by (rule last_in_set)
  then show ?thesis by (simp add: newest_def)
qed

lemma newest_greatest:
  assumes "d \<in> set dirs"
  shows "path_parts d \<le> path_parts (newest dirs)"
proof -
  let ?s = "sort_key path_parts dirs"
  from assms have ne: "?s \<noteq> []" by (metis set_sort empty_iff set_empty)
  have "sorted (map path_parts ?s)" by (rule sorted_sort_key)
  moreover from assms have "path_parts d \<in> set (map path_parts ?s)" by simp
  ultimately have "path_parts d \<le> last (map path_parts ?s)" by (rule sorted_le_last)
  with ne show ?thesis by (simp add: newest_def last_map)
qed

text \<open>What \<^verbatim>\<open>list_projects\<close> does with the directory it has chosen.\<close>

lemma list_projects_from_skip:
  "\<forall>q\<in>set pre. glob h (config_dir h) (q @ ''*/'') = [] \<Longrightarrow>
   list_projects_from h self (pre @ rest) = list_projects_from h self rest"
  by (induction pre) simp_all

lemma list_projects_from_hit:
  "glob h (config_dir h) (p @ ''*/'') \<noteq> [] \<Longrightarrow>
   list_projects_from h self (p # post) =
     except_parse_or_missing
       (case get_recent_projects_entries h self (newest (glob h (config_dir h) (p @ ''*/''))) of
          Inl e \<Rightarrow> Inl e
        | Inr es \<Rightarrow> parse_project_entries h self es)"
  by (simp add: Let_def)

lemma list_projects_chosen:
  assumes "config_dir_prefixes self = pre @ p # post"
    and "\<forall>q\<in>set pre. glob h (config_dir h) (q @ ''*/'') = []"
    and "glob h (config_dir h) (p @ ''*/'') \<noteq> []"
  shows "list_projects h self =
     except_parse_or_missing
       (case get_recent_projects_entries h self (newest (glob h (config_dir h) (p @ ''*/''))) of
          Inl e \<Rightarrow> Inl e
        | Inr es \<Rightarrow> parse_project_entries h self es)"
  using assms by (simp add: list_projects_def list_projects_from_skip list_projects_from_hit)

lemma list_projects_no_directory:
  assumes "\<forall>p\<in>set (config_dir_prefixes self). glob h (config_dir h) (p @ ''*/'') = []"
  shows "list_projects h self = Inr []"
  using list_projects_from_skip [OF assms, of self "[]"] by (simp add: list_projects_def)

lemma get_recent_projects_entries_file:
  "get_recent_projects_entries h self dir =
     (case parse h (recent_projects_file (cls self) dir) of
        Inl e \<Rightarrow> Inl e
      | Inr root \<Rightarrow>
          Inr (findall_entries
                 (case cls self of JetBrainsIde \<Rightarrow> ''RecentProjectsManager''
                  | Rider \<Rightarrow> ''RiderRecentProjectsManager'') root))"
  by (simp add: get_recent_projects_entries_def JetBrainsIde_get_recent_projects_entries_def
      Rider_get_recent_projects_entries_def split: ide_class.splits)

text \<open>Only \<^verbatim>\<open>_get_recent_projects_entries\<close> reads documents.\<close>

lemma parse_entry_other_documents:
  "parse_entry (h\<lparr>parse := r\<rparr>) self acc e = parse_entry h self acc e"
  by (simp add: parse_entry_def split: option.splits)

lemma parse_entries_from_other_documents:
  "parse_entries_from (h\<lparr>parse := r\<rparr>) self acc es = parse_entries_from h self acc es"
  by (induction es arbitrary: acc) (simp_all add: parse_entry_other_documents split: sum.splits)

lemma config_dir_other_documents: "config_dir (h\<lparr>parse := r\<rparr>) = config_dir h"
  by (simp add: config_dir_def)

lemma list_projects_from_other_documents:
  assumes "config_dir_prefixes self = pre @ p # post"
    and "\<forall>q\<in>set pre. glob h (config_dir h) (q @ ''*/'') = []"
    and "glob h (config_dir h) (p @ ''*/'') \<noteq> []"
    and "r (recent_projects_file (cls self) (newest (glob h (config_dir h) (p @ ''*/''))))
          = parse h (recent_projects_file (cls self) (newest (glob h (config_dir h) (p @ ''*/''))))"
  shows "list_projects (h\<lparr>parse := r\<rparr>) self = list_projects h self"
proof -
  let ?h = "h\<lparr>parse := r\<rparr>"
  let ?d = "newest (glob h (config_dir h) (p @ ''*/''))"
  have same: "get_recent_projects_entries ?h self ?d = get_recent_projects_entries h self ?d"
    using assms(4) by (simp add: get_recent_projects_entries_file)
  have "list_projects ?h self =
     except_parse_or_missing
       (case get_recent_projects_entries ?h self ?d of
          Inl e \<Rightarrow> Inl e
        | Inr es \<Rightarrow> parse_project_entries ?h self es)"
    using list_projects_chosen [of self pre p post ?h] assms(1-3)
    by (simp add: config_dir_other_documents)
  also have "\<dots> = list_projects h self"
    unfolding same list_projects_chosen [OF assms(1-3)] parse_project_entries_def
      parse_entries_from_other_documents ..
  finally show ?thesis .
qed


text \<open>
  C6. \<^verbatim>\<open>list_projects\<close> goes through the prefixes of the editor in their order. If no prefix
  has a directory, the result is the empty list. Otherwise, for the first prefix \<open>p\<close> that has
  directories \<open>dirs\<close> (all prefixes \<open>pre\<close> before it have none, whatever the prefixes \<open>post\<close>
  after it have): the directory read is one of \<open>dirs\<close> and the last of them in the order of
  \<^verbatim>\<open>sorted\<close>; the result is what the file of that directory alone gives; and the result stays
  the same when every other document of the machine is replaced, so no other directory, of
  this prefix or of a later one, is read or merged.
\<close>

theorem list_projects_first_prefix_newest_directory:
  "((\<forall>p\<in>set (config_dir_prefixes self). glob h (config_dir h) (p @ ''*/'') = [])
      \<longrightarrow> list_projects h self = Inr [])
   \<and> (\<forall>pre p post dirs.
        config_dir_prefixes self = pre @ p # post
        \<and> (\<forall>q\<in>set pre. glob h (config_dir h) (q @ ''*/'') = [])
        \<and> dirs = glob h (config_dir h) (p @ ''*/'') \<and> dirs \<noteq> []
        \<longrightarrow> newest dirs \<in> set dirs
          \<and> (\<forall>d\<in>set dirs. path_parts d \<le> path_parts (newest dirs))
          \<and> list_projects h self =
              except_parse_or_missing
                (case get_recent_projects_entries h self (newest dirs) of
                   Inl e \<Rightarrow> Inl e
                 | Inr es \<Rightarrow> parse_project_entries h self es)
          \<and> (\<forall>r. r (recent_projects_file (cls self) (newest dirs))
                    = parse h (recent_projects_file (cls self) (newest dirs))
                \<longrightarrow> list_projects (h\<lparr>parse := r\<rparr>) self = list_projects h self))"
proof (intro conjI allI impI)
  assume "\<forall>p\<in>set (config_dir_prefixes self). glob h (config_dir h) (p @ ''*/'') = []"
  then show "list_projects h self = Inr []" by (rule list_projects_no_directory)
next
  fix pre p post dirs
  assume a: "config_dir_prefixes self = pre @ p # post
        \<and> (\<forall>q\<in>set pre. glob h (config_dir h) (q @ ''*/'') = [])
        \<and> dirs = glob h (config_dir h) (p @ ''*/'') \<and> dirs \<noteq> []"
  then have prefixes: "config_dir_prefixes self = pre @ p # post"
    and skipped: "\<forall>q\<in>set pre. glob h (config_dir h) (q @ ''*/'') = []"
    and dirs: "glob h (config_dir h) (p @ ''*/'') = dirs"
    and ne: "dirs \<noteq> []"
    by blast+
  from ne show "newest dirs \<in> set dirs" by (rule newest_in)
  show "\<forall>d\<in>set dirs. path_parts d \<le> path_parts (newest dirs)"
    by (simp add: newest_greatest)
  from ne have hit: "glob h (config_dir h) (p @ ''*/'') \<noteq> []"
    unfolding dirs .
  show "list_projects h self =
              except_parse_or_missing
                (case get_recent_projects_entries h self (newest dirs) of
                   Inl e \<Rightarrow> Inl e
                 | Inr es \<Rightarrow> parse_project_entries h self es)"
    using list_projects_chosen [OF prefixes skipped hit] unfolding dirs .
  fix r
  assume "r (recent_projects_file (cls self) (newest dirs))
                    = parse h (recent_projects_file (cls self) (newest dirs))"
  then show "list_projects (h\<lparr>parse := r\<rparr>) self = list_projects h self"
    using list_projects_from_other_documents [OF prefixes skipped hit, of r] unfolding dirs
    by blast
qed



lemma config_dir_demo_host: "config_dir demo_host = ''/home/u/.config''"
  by (simp add: config_dir_def demo_host_def joinpath_def)

lemma pycharm_dirs:
  "glob demo_host (config_dir demo_host) (''JetBrains/PyCharm'' @ ''*/'') =
     [''/home/u/.config/JetBrains/PyCharm2023.3'',
      ''/home/u/.config/JetBrains/PyCharm2024.2'',
      ''/home/u/.config/JetBrains/PyCharm2024.1'']"
  by (simp add: config_dir_demo_host) (simp add: demo_host_def)

lemma pycharm_newest:
  "newest [''/home/u/.config/JetBrains/PyCharm2023.3'',
           ''/home/u/.config/JetBrains/PyCharm2024.2'',
           ''/home/u/.config/JetBrains/PyCharm2024.1'']
   = ''/home/u/.config/JetBrains/PyCharm2024.2''"
  by code_simp

lemma pycharm_projects:
  "list_projects demo_host pycharm =
     Inr [\<lparr>name = ''proj-a'', path = ''/home/u/proj-a'', last_opened = 100, ide = pycharm\<rparr>,
          \<lparr>name = ''proj-b'', path = ''/home/u/proj-b'', last_opened = 300, ide = pycharm\<rparr>,
          \<lparr>name = ''gone'', path = ''/srv/gone'', last_opened = 400, ide = pycharm\<rparr>,
          \<lparr>name = ''proj-c'', path = ''/home/u/proj-c'', last_opened = 200, ide = pycharm\<rparr>]"
  by code_simp

theorem list_projects_first_prefix_newest_directory_witness:
  "newest (glob demo_host (config_dir demo_host) (''JetBrains/PyCharm'' @ ''*/''))
     = ''/home/u/.config/JetBrains/PyCharm2024.2''
   \<and> list_projects
        (demo_host\<lparr>parse := \<lambda>f.
           if f = ''/home/u/.config/JetBrains/PyCharm2024.2/options/recentProjects.xml''
           then parse demo_host f else Inl PermissionError\<rparr>) pycharm
     = Inr [\<lparr>name = ''proj-a'', path = ''/home/u/proj-a'', last_opened = 100, ide = pycharm\<rparr>,
            \<lparr>name = ''proj-b'', path = ''/home/u/proj-b'', last_opened = 300, ide = pycharm\<rparr>,
            \<lparr>name = ''gone'', path = ''/srv/gone'', last_opened = 400, ide = pycharm\<rparr>,
            \<lparr>name = ''proj-c'', path = ''/home/u/proj-c'', last_opened = 200, ide = pycharm\<rparr>]"
proof -
  let ?dirs = "[''/home/u/.config/JetBrains/PyCharm2023.3'',
      ''/home/u/.config/JetBrains/PyCharm2024.2'',
      ''/home/u/.config/JetBrains/PyCharm2024.1'']"
  let ?file = "''/home/u/.config/JetBrains/PyCharm2024.2/options/recentProjects.xml''"
  let ?r = "\<lambda>f. if f = ?file then parse demo_host f else Inl PermissionError"
  have prefixes: "config_dir_prefixes pycharm = [] @ ''JetBrains/PyCharm'' # []"
    by (simp add: pycharm_def)
  have recent: "recent_projects_file (cls pycharm) (newest ?dirs) = ?file"
    unfolding pycharm_newest by (simp add: recent_projects_file_def pycharm_def joinpath_def)
  have same: "?r (recent_projects_file (cls pycharm) (newest ?dirs))
      = parse demo_host (recent_projects_file (cls pycharm) (newest ?dirs))"
    unfolding recent by simp
  have chosen: "config_dir_prefixes pycharm = [] @ ''JetBrains/PyCharm'' # []
      \<and> (\<forall>q\<in>set []. glob demo_host (config_dir demo_host) (q @ ''*/'') = [])
      \<and> ?dirs = glob demo_host (config_dir demo_host) (''JetBrains/PyCharm'' @ ''*/'')
      \<and> ?dirs \<noteq> []"
    unfolding pycharm_dirs using prefixes by simp
  note list_projects_first_prefix_newest_directory
    [of pycharm demo_host, THEN conjunct2, rule_format, OF chosen]
  then have "\<forall>r. r (recent_projects_file (cls pycharm) (newest ?dirs))
                    = parse demo_host (recent_projects_file (cls pycharm) (newest ?dirs))
      \<longrightarrow> list_projects (demo_host\<lparr>parse := r\<rparr>) pycharm = list_projects demo_host pycharm"
    by (elim conjE)
  from this [rule_format, of ?r, OF same]
  have "list_projects (demo_host\<lparr>parse := ?r\<rparr>) pycharm = list_projects demo_host pycharm" .
  then show ?thesis
    unfolding pycharm_dirs pycharm_newest pycharm_projects by simp
qed




section \<open>Candidates, matches and items\<close>

lemma get_projects_from_member:
  "get_projects_from h es = Inr ps \<Longrightarrow>
   p \<in> set ps \<longleftrightarrow>
     path_exists h (path p) \<and> (\<exists>e\<in>set es. \<exists>qs. list_projects h e = Inr qs \<and> p \<in> set qs)"
proof (induction es arbitrary: ps)
  case Nil
  then show ?case by auto
next
  case (Cons e es)
  from Cons.prems obtain qs rs where e: "list_projects h e = Inr qs"
    and rest: "get_projects_from h es = Inr rs"
    and ps: "ps = filter (\<lambda>p. path_exists h (path p)) qs @ rs"
    by (auto split: sum.splits)
  from Cons.IH [OF rest] e ps show ?case by auto
qed

text \<open>
  C9. When \<^verbatim>\<open>_get_projects\<close> returns the candidates of a query, a project is among them exactly
  when its path exists on the host of that query and some editor of the plugin lists it: a
  project the parser produced whose path is gone is not a candidate.
\<close>

theorem get_projects_existing_paths:
  "get_projects h self = Inr ps \<Longrightarrow>
   p \<in> set ps \<longleftrightarrow>
     path_exists h (path p)
     \<and> (\<exists>e\<in>set (editors self). \<exists>qs. list_projects h e = Inr qs \<and> p \<in> set qs)"
  unfolding get_projects_def by (rule get_projects_from_member)


lemma sort_reverse_descending:
  "sorted_wrt (\<lambda>a b. k a \<ge> k b) (sort_reverse k xs)"
proof -
  have "sorted (map k (sort_key k (rev xs)))" by (rule sorted_sort_key)
  then have "sorted_wrt (\<lambda>a b. k a \<le> k b) (sort_key k (rev xs))"
    by (simp add: sorted_map)
  then show ?thesis
    by (simp add: sort_reverse_def sorted_wrt_rev)
qed




text \<open>The list \<^verbatim>\<open>matches\<close> is in descending order of \<open>last_opened\<close> after the sort.\<close>

lemma matches_descending:
  "matches h self q = Inr ms \<Longrightarrow> sorted_wrt (\<lambda>a b. last_opened a \<ge> last_opened b) ms"
  by (auto simp: matches_def sort_reverse_descending split: sum.splits)

text \<open>
  \<^verbatim>\<open>items\<close> hands each match to \<^verbatim>\<open>_make_item\<close> as its only argument: with one match or more the
  first call raises, and only the empty batch is ever yielded.
\<close>

lemma make_items_raises: "make_items (p # ps) = Inl TypeError"
  by simp

lemma items_raises:
  "matches h self q = Inr (m # ms) \<Longrightarrow> items h self q = Inl TypeError"
  by (simp add: items_def)

lemma items_empty:
  "matches h self q = Inr [] \<Longrightarrow> items h self q = Inr []"
  by (simp add: items_def)

lemma demo_candidates:
  "get_projects demo_host demo_plugin =
     Inr [\<lparr>name = ''proj-a'', path = ''/home/u/proj-a'', last_opened = 100, ide = pycharm\<rparr>,
          \<lparr>name = ''proj-b'', path = ''/home/u/proj-b'', last_opened = 300, ide = pycharm\<rparr>,
          \<lparr>name = ''proj-c'', path = ''/home/u/proj-c'', last_opened = 200, ide = pycharm\<rparr>,
          \<lparr>name = ''app'', path = ''/home/u/work/app'', last_opened = 1700000000, ide = rider\<rparr>,
          \<lparr>name = ''foo'', path = ''/home/u/work/app'', last_opened = 1700000000, ide = rider\<rparr>]"
  by code_simp

lemma demo_editors: "editors demo_plugin = [clion, idea, pycharm, rider]"
  by code_simp

theorem get_projects_existing_paths_witness:
  "(\<exists>ps. get_projects demo_host demo_plugin = Inr ps
      \<and> \<lparr>name = ''gone'', path = ''/srv/gone'', last_opened = 400, ide = pycharm\<rparr> \<notin> set ps
      \<and> \<lparr>name = ''proj-a'', path = ''/home/u/proj-a'', last_opened = 100, ide = pycharm\<rparr> \<in> set ps)
   \<and> (\<exists>qs. list_projects demo_host pycharm = Inr qs
      \<and> \<lparr>name = ''gone'', path = ''/srv/gone'', last_opened = 400, ide = pycharm\<rparr> \<in> set qs)"
proof -
  let ?gone = "\<lparr>name = ''gone'', path = ''/srv/gone'', last_opened = 400, ide = pycharm\<rparr>"
  let ?a = "\<lparr>name = ''proj-a'', path = ''/home/u/proj-a'', last_opened = 100, ide = pycharm\<rparr>"
  note iff = get_projects_existing_paths [OF demo_candidates]
  have "\<not> path_exists demo_host (path ?gone)"
    by (simp add: demo_host_def)
  with iff [of ?gone] have gone: "?gone \<notin> set
     [\<lparr>name = ''proj-a'', path = ''/home/u/proj-a'', last_opened = 100, ide = pycharm\<rparr>,
      \<lparr>name = ''proj-b'', path = ''/home/u/proj-b'', last_opened = 300, ide = pycharm\<rparr>,
      \<lparr>name = ''proj-c'', path = ''/home/u/proj-c'', last_opened = 200, ide = pycharm\<rparr>,
      \<lparr>name = ''app'', path = ''/home/u/work/app'', last_opened = 1700000000, ide = rider\<rparr>,
      \<lparr>name = ''foo'', path = ''/home/u/work/app'', last_opened = 1700000000, ide = rider\<rparr>]"
    by blast
  have "path_exists demo_host (path ?a)"
    by (simp add: demo_host_def)
  moreover have "pycharm \<in> set (editors demo_plugin)"
    by (simp add: demo_editors)
  moreover have "?a \<in> set
     [\<lparr>name = ''proj-a'', path = ''/home/u/proj-a'', last_opened = 100, ide = pycharm\<rparr>,
      \<lparr>name = ''proj-b'', path = ''/home/u/proj-b'', last_opened = 300, ide = pycharm\<rparr>,
      \<lparr>name = ''gone'', path = ''/srv/gone'', last_opened = 400, ide = pycharm\<rparr>,
      \<lparr>name = ''proj-c'', path = ''/home/u/proj-c'', last_opened = 200, ide = pycharm\<rparr>]"
    by simp
  ultimately have a: "?a \<in> set
     [\<lparr>name = ''proj-a'', path = ''/home/u/proj-a'', last_opened = 100, ide = pycharm\<rparr>,
      \<lparr>name = ''proj-b'', path = ''/home/u/proj-b'', last_opened = 300, ide = pycharm\<rparr>,
      \<lparr>name = ''proj-c'', path = ''/home/u/proj-c'', last_opened = 200, ide = pycharm\<rparr>,
      \<lparr>name = ''app'', path = ''/home/u/work/app'', last_opened = 1700000000, ide = rider\<rparr>,
      \<lparr>name = ''foo'', path = ''/home/u/work/app'', last_opened = 1700000000, ide = rider\<rparr>]"
    using iff [of ?a] pycharm_projects by blast
  have "?gone \<in> set
     [\<lparr>name = ''proj-a'', path = ''/home/u/proj-a'', last_opened = 100, ide = pycharm\<rparr>,
      \<lparr>name = ''proj-b'', path = ''/home/u/proj-b'', last_opened = 300, ide = pycharm\<rparr>,
      \<lparr>name = ''gone'', path = ''/srv/gone'', last_opened = 400, ide = pycharm\<rparr>,
      \<lparr>name = ''proj-c'', path = ''/home/u/proj-c'', last_opened = 200, ide = pycharm\<rparr>]"
    by simp
  with gone a demo_candidates pycharm_projects show ?thesis by blast
qed


text \<open>
  C7. Three candidates opened at 100, 300 and 200 all match the query \<^verbatim>\<open>proj\<close>. The sort puts
  them in the order 300, 200, 100, and then \<^verbatim>\<open>items\<close> raises \<^verbatim>\<open>TypeError\<close> at the first call of
  \<^verbatim>\<open>_make_item\<close>: nothing is returned.
\<close>

theorem items_order_raises:
  "matches demo_host demo_plugin ''proj'' =
     Inr [\<lparr>name = ''proj-b'', path = ''/home/u/proj-b'', last_opened = 300, ide = pycharm\<rparr>,
          \<lparr>name = ''proj-c'', path = ''/home/u/proj-c'', last_opened = 200, ide = pycharm\<rparr>,
          \<lparr>name = ''proj-a'', path = ''/home/u/proj-a'', last_opened = 100, ide = pycharm\<rparr>]
   \<and> items demo_host demo_plugin ''proj'' = Inl TypeError"
  by code_simp

text \<open>
  C3. One candidate matches the query \<^verbatim>\<open>app\<close>. \<^verbatim>\<open>items\<close> raises \<^verbatim>\<open>TypeError\<close> and builds no
  entry, because \<^verbatim>\<open>self._make_item(project)\<close> gives one argument to a static method of two
  parameters. Called with the editor and the project, \<^verbatim>\<open>_make_item\<close> builds the entry of the
  claim.
\<close>

theorem items_make_item_raises:
  "matches demo_host demo_plugin ''app'' =
     Inr [\<lparr>name = ''app'', path = ''/home/u/work/app'', last_opened = 1700000000, ide = rider\<rparr>]
   \<and> items demo_host demo_plugin ''app'' = Inl TypeError
   \<and> make_item [IdeObject rider,
        ProjectObject \<lparr>name = ''app'', path = ''/home/u/work/app'',
                        last_opened = 1700000000, ide = rider\<rparr>] =
     Inr \<lparr>item_id = ''rider-/home/u/work/app-1700000000'',
          item_text = ''app'',
          subtext = ''/home/u/work/app'',
          input_action_text = ''app'',
          icon_image = ''/plugin/icons/rider.svg'',
          actions = [\<lparr>action_id = ''Open'', action_text = ''Open in Rider'',
                      run_detached_process = [Some ''rider'', Some ''/home/u/work/app'']\<rparr>]\<rparr>"
  by code_simp

end
